theory Spec2Isabelle
  imports Complex_Main
begin

section \<open>Python values\<close>

text \<open>
  The tool functions of \<^verbatim>\<open>agent.py\<close> take strings, an int, a float, a list and a dict,
  and every one of them returns a dict literal. A Python float is a finite number, one of
  the two infinities, or NaN. The finite values are embedded as reals: the only float
  operation of the source is the comparison of the constant \<^verbatim>\<open>0.75\<close> (which a binary
  float holds exactly) with the threshold, and a comparison of two finite floats is the
  comparison of the numbers they denote. An int passed where a float is declared compares
  the same way.
\<close>

datatype pyfloat = Finite real | PosInf | NegInf | NaN

text \<open>
  A dict keeps its items in insertion order, so it is an association list; the dict
  literals of the source have no repeated key.
\<close>

datatype pyval =
    PNone
  | PBool bool
  | PInt int
  | PFloat pyfloat
  | PStr string
  | PList "pyval list"
  | PDict "(string \<times> pyval) list"

type_synonym pydict = "(string \<times> pyval) list"

text \<open>Python's \<^verbatim>\<open>a >= b\<close> and \<^verbatim>\<open>a > b\<close> on floats: every comparison with NaN is false.\<close>

fun float_ge :: "pyfloat \<Rightarrow> pyfloat \<Rightarrow> bool" where
  "float_ge NaN y = False"
| "float_ge x NaN = False"
| "float_ge PosInf y = True"
| "float_ge x NegInf = True"
| "float_ge (Finite a) (Finite b) = (b \<le> a)"
| "float_ge (Finite a) PosInf = False"
| "float_ge NegInf y = False"

fun float_gt :: "pyfloat \<Rightarrow> pyfloat \<Rightarrow> bool" where
  "float_gt NaN y = False"
| "float_gt x NaN = False"
| "float_gt NegInf y = False"
| "float_gt x PosInf = False"
| "float_gt (Finite a) (Finite b) = (b < a)"
| "float_gt (Finite a) NegInf = True"
| "float_gt PosInf y = True"

text \<open>\<^verbatim>\<open>a <= b\<close> is \<^verbatim>\<open>b >= a\<close>.\<close>

definition float_le :: "pyfloat \<Rightarrow> pyfloat \<Rightarrow> bool" where
  "float_le a b = float_ge b a"

text \<open>Reading a dict: the value stored under a key, the keys in order, being a dict.\<close>

fun dict_get :: "pyval \<Rightarrow> string \<Rightarrow> pyval option" where
  "dict_get (PDict kvs) k = map_of kvs k"
| "dict_get v k = None"

fun dict_keys :: "pyval \<Rightarrow> string list" where
  "dict_keys (PDict kvs) = map fst kvs"
| "dict_keys v = []"

fun is_dict :: "pyval \<Rightarrow> bool" where
  "is_dict (PDict kvs) = True"
| "is_dict v = False"

text \<open>
  \<^verbatim>\<open>str(i)\<close> of an int, which is what an f-string puts in place of \<^verbatim>\<open>{i-1}\<close>:
  the decimal digits, most significant first, after a minus sign when negative.
\<close>

definition digit_char :: "nat \<Rightarrow> char" where
  "digit_char d = ''0123456789'' ! d"

function str_nat :: "nat \<Rightarrow> string" where
  "str_nat n = (if n < 10 then [digit_char n] else str_nat (n div 10) @ [digit_char (n mod 10)])"
  by pat_completeness auto
termination
  by (relation "measure id") auto

declare str_nat.simps [simp del]

definition str_int :: "int \<Rightarrow> string" where
  "str_int i = (if i < 0 then CHR ''-'' # str_nat (nat (- i)) else str_nat (nat i))"

section \<open>The tool functions\<close>

definition get_student_info :: "string \<Rightarrow> string \<Rightarrow> string \<Rightarrow> string \<Rightarrow> pyval" where
  "get_student_info grade_level subject exam_date current_knowledge =
     PDict [
       (''student_profile'', PDict [
          (''grade_level'', PStr grade_level),
          (''subject'', PStr subject),
          (''exam_date'', PStr exam_date),
          (''current_knowledge'', PStr current_knowledge),
          (''profile_complete'', PBool True)]),
       (''next_step'', PStr ''research_subject'')]"

definition research_subject :: "string \<Rightarrow> string \<Rightarrow> pyval" where
  "research_subject subject grade_level =
     PDict [
       (''subject_overview'',
          PStr (''Research completed for '' @ subject @ '' at '' @ grade_level @ '' level'')),
       (''key_concepts'', PList [
          PStr ''Fundamental principles'',
          PStr ''Core theories and applications'',
          PStr ''Problem-solving techniques'',
          PStr ''Common exam topics'']),
       (''difficulty_areas'', PList [
          PStr ''Abstract concepts'',
          PStr ''Mathematical applications'',
          PStr ''Memorization requirements'']),
       (''next_step'', PStr ''create_study_sections'')]"

text \<open>
  The dict that one turn of the loop of \<^verbatim>\<open>create_study_sections\<close> appends, for the
  index \<open>i\<close> and the concept at hand. The concepts are strings (the key concepts of
  \<^verbatim>\<open>research_subject\<close>), so an f-string inserts them as they are.
\<close>

definition section_dict :: "int \<Rightarrow> string \<Rightarrow> pyval" where
  "section_dict i concept =
     PDict [
       (''section_number'', PInt i),
       (''title'', PStr concept),
       (''estimated_time'', PStr ''3-5 study sessions''),
       (''prerequisites'',
          PStr (if i > 1 then ''Understanding of previous '' @ str_int (i - 1) @ '' sections''
                else ''Basic foundational knowledge'')),
       (''learning_objectives'', PList [
          PStr (''Master '' @ concept),
          PStr (''Apply '' @ concept @ '' to problems''),
          PStr (''Explain '' @ concept @ '' clearly'')]),
       (''status'', PStr ''not_started'')]"

text \<open>
  \<^verbatim>\<open>for i, concept in enumerate(key_concepts, 1): sections.append({...})\<close>: the
  counter, the concepts still to visit, and the list built so far.
\<close>

fun append_sections :: "int \<Rightarrow> string list \<Rightarrow> pyval list \<Rightarrow> pyval list" where
  "append_sections i [] sections = sections"
| "append_sections i (concept # rest) sections =
     append_sections (i + 1) rest (sections @ [section_dict i concept])"

definition create_study_sections :: "string \<Rightarrow> string list \<Rightarrow> string \<Rightarrow> pyval" where
  "create_study_sections subject key_concepts exam_date =
     (let sections = append_sections 1 key_concepts [] in
      PDict [
        (''study_sections'', PList sections),
        (''total_sections'', PInt (int (length sections))),
        (''current_section'', PInt 1),
        (''next_step'', PStr ''teach_section'')])"

definition teach_section :: "int \<Rightarrow> string \<Rightarrow> string \<Rightarrow> pyval" where
  "teach_section section_number section_title student_grade =
     PDict [
       (''section_taught'', PDict [
          (''number'', PInt section_number),
          (''title'', PStr section_title),
          (''explanations_provided'', PBool True),
          (''examples_given'', PBool True),
          (''grade_appropriate'', PStr student_grade)]),
       (''teaching_summary'',
          PStr (''Completed teaching '' @ section_title
                @ '' with explanations and examples suitable for '' @ student_grade)),
       (''next_step'', PStr ''quiz_section'')]"

definition quiz_section :: "int \<Rightarrow> string \<Rightarrow> string \<Rightarrow> pyval" where
  "quiz_section section_number section_title difficulty_level =
     PDict [
       (''quiz_administered'', PDict [
          (''section'', PInt section_number),
          (''title'', PStr section_title),
          (''difficulty'', PStr difficulty_level),
          (''questions_asked'', PInt 5),
          (''answers_received'', PBool True)]),
       (''next_step'', PStr ''check_understanding'')]"

text \<open>
  A call of \<^verbatim>\<open>quiz_section\<close> may omit \<^verbatim>\<open>difficulty_level\<close> (\<open>None\<close> here); the
  parameter is then bound to its default \<^verbatim>\<open>"medium"\<close>.
\<close>

definition quiz_section_call :: "int \<Rightarrow> string \<Rightarrow> string option \<Rightarrow> pyval" where
  "quiz_section_call section_number section_title difficulty_level =
     quiz_section section_number section_title
       (case difficulty_level of None \<Rightarrow> ''medium'' | Some d \<Rightarrow> d)"

definition check_understanding :: "pydict \<Rightarrow> pyfloat \<Rightarrow> pyval" where
  "check_understanding quiz_results passing_threshold =
     (let understanding_level = Finite 0.75 in
      if float_ge understanding_level passing_threshold then
        PDict [
          (''understanding_sufficient'', PBool True),
          (''score'', PFloat understanding_level),
          (''next_action'', PStr ''proceed_to_next_section''),
          (''message'',
             PStr ''Great job! You've mastered this section. Let's move to the next one.'')]
      else
        PDict [
          (''understanding_sufficient'', PBool False),
          (''score'', PFloat understanding_level),
          (''next_action'', PStr ''review_and_reteach''),
          (''weak_concepts'', PList [PStr ''Concept A'', PStr ''Concept B'']),
          (''message'',
             PStr ''Let's review some concepts you're still working on, then try the quiz again.'')])"

text \<open>
  A call of \<^verbatim>\<open>check_understanding\<close> may omit \<^verbatim>\<open>passing_threshold\<close>; the parameter is
  then bound to its default \<^verbatim>\<open>0.8\<close>. The float nearest to 0.8 is not 0.8 itself, but it
  lies above 0.75 as 0.8 does, and the comparison is all the body does with it.
\<close>

definition check_understanding_call :: "pydict \<Rightarrow> pyfloat option \<Rightarrow> pyval" where
  "check_understanding_call quiz_results passing_threshold =
     check_understanding quiz_results
       (case passing_threshold of None \<Rightarrow> Finite 0.8 | Some t \<Rightarrow> t)"

section \<open>The tools on a store of objects\<close>

text \<open>
  Python passes lists and dicts by reference, and every list or dict literal creates a new
  object. To say what a tool reads and what it changes, the tools are written a second
  time over an explicit store: strings, numbers and booleans are values, a list or a dict
  is an object at an address, and a value may be a reference to one. An object is created
  at the next free address; addresses are never reused.
\<close>

type_synonym addr = nat

datatype hval = VNone | VBool bool | VInt int | VFloat pyfloat | VStr string | VRef addr

datatype hobj = HList "hval list" | HDict "(string \<times> hval) list"

type_synonym heap = "hobj list"

definition alloc :: "hobj \<Rightarrow> heap \<Rightarrow> addr \<times> heap" where
  "alloc ob h = (length h, h @ [ob])"

text \<open>\<^verbatim>\<open>xs.append(v)\<close> for the list at address \<open>a\<close>; \<^verbatim>\<open>len(xs)\<close>.\<close>

definition list_append :: "addr \<Rightarrow> hval \<Rightarrow> heap \<Rightarrow> heap" where
  "list_append a v h =
     (if a < length h then
        (case h ! a of HList vs \<Rightarrow> h[a := HList (vs @ [v])] | HDict kvs \<Rightarrow> h)
      else h)"

definition list_len :: "addr \<Rightarrow> heap \<Rightarrow> int" where
  "list_len a h =
     (if a < length h then (case h ! a of HList vs \<Rightarrow> int (length vs) | HDict kvs \<Rightarrow> 0)
      else 0)"

text \<open>
  What a call can end in besides a result. \<open>ValueError\<close> and \<open>RecursionError\<close> are
  Python's exceptions. \<open>Ill_typed\<close> is not one: it marks a call whose
  \<^verbatim>\<open>key_concepts\<close> is not a reference to a list, which the declared type excludes.
\<close>

datatype py_error = ValueError | RecursionError | Ill_typed

text \<open>
  Since CPython 3.11 (and the security releases of 3.7 to 3.10), turning an int into a
  decimal string raises \<^verbatim>\<open>ValueError\<close> when it has more than
  \<^verbatim>\<open>sys.get_int_max_str_digits()\<close> digits, 4300 unless reconfigured; the sign is not
  counted.
\<close>

definition max_str_digits :: nat where
  "max_str_digits = 4300"

definition format_int :: "int \<Rightarrow> py_error + string" where
  "format_int i =
     (if length (str_nat (nat \<bar>i\<bar>)) > max_str_digits then Inl ValueError else Inr (str_int i))"

text \<open>
  What an f-string puts in place of \<^verbatim>\<open>{concept}\<close>, that is \<^verbatim>\<open>format(concept, "")\<close>.
  A string is inserted as it is; an int, a bool and \<^verbatim>\<open>None\<close> are printed. The
  rendering of a float or of a container is not modelled: it is the parameter
  \<open>format_other\<close>, which sees the store because a container prints its elements, and
  every statement below holds whatever that parameter is.
\<close>

type_synonym formatter = "heap \<Rightarrow> hval \<Rightarrow> py_error + string"

fun format_value :: "formatter \<Rightarrow> heap \<Rightarrow> hval \<Rightarrow> py_error + string" where
  "format_value format_other h (VStr s) = Inr s"
| "format_value format_other h (VInt i) = format_int i"
| "format_value format_other h (VBool b) = Inr (if b then ''True'' else ''False'')"
| "format_value format_other h VNone = Inr ''None''"
| "format_value format_other h v = format_other h v"

text \<open>
  One turn of the loop of \<^verbatim>\<open>create_study_sections\<close>, up to the dict it builds: the
  values of the dict literal are evaluated in the order written, so \<^verbatim>\<open>{i-1}\<close> is
  formatted first, then the concept three times, then the list of objectives is created,
  then the dict.
\<close>

definition new_section :: "formatter \<Rightarrow> int \<Rightarrow> hval \<Rightarrow> heap \<Rightarrow> (py_error + addr) \<times> heap" where
  "new_section format_other i concept h =
     (case (if i > 1 then
              (case format_int (i - 1) of
                 Inl e \<Rightarrow> Inl e
               | Inr n \<Rightarrow> Inr (''Understanding of previous '' @ n @ '' sections''))
            else Inr ''Basic foundational knowledge'') of
        Inl e \<Rightarrow> (Inl e, h)
      | Inr prerequisites \<Rightarrow>
     (case format_value format_other h concept of
        Inl e \<Rightarrow> (Inl e, h)
      | Inr master \<Rightarrow>
     (case format_value format_other h concept of
        Inl e \<Rightarrow> (Inl e, h)
      | Inr apply \<Rightarrow>
     (case format_value format_other h concept of
        Inl e \<Rightarrow> (Inl e, h)
      | Inr explain \<Rightarrow>
        (let (learning_objectives, h1) =
               alloc (HList [
                 VStr (''Master '' @ master),
                 VStr (''Apply '' @ apply @ '' to problems''),
                 VStr (''Explain '' @ explain @ '' clearly'')]) h;
             (section, h2) =
               alloc (HDict [
                 (''section_number'', VInt i),
                 (''title'', concept),
                 (''estimated_time'', VStr ''3-5 study sessions''),
                 (''prerequisites'', VStr prerequisites),
                 (''learning_objectives'', VRef learning_objectives),
                 (''status'', VStr ''not_started'')]) h1
         in (Inr section, h2))))))"

text \<open>
  The loop: the elements still to visit, the counter, and the address of
  \<^verbatim>\<open>sections\<close>. An exception ends it at once.
\<close>

fun append_sections_st ::
  "formatter \<Rightarrow> addr \<Rightarrow> int \<Rightarrow> hval list \<Rightarrow> heap \<Rightarrow> (py_error + unit) \<times> heap" where
  "append_sections_st format_other sections i [] h = (Inr (), h)"
| "append_sections_st format_other sections i (concept # rest) h =
     (case new_section format_other i concept h of
        (Inl e, h1) \<Rightarrow> (Inl e, h1)
      | (Inr section, h1) \<Rightarrow>
          append_sections_st format_other sections (i + 1) rest
            (list_append sections (VRef section) h1))"

text \<open>
  \<^verbatim>\<open>key_concepts\<close> is the address of the caller's list. The loop visits the elements
  the list has when the call starts: nothing in the body changes that list, since
  \<^verbatim>\<open>sections\<close> is a new object.
\<close>

definition create_study_sections_st ::
  "formatter \<Rightarrow> string \<Rightarrow> addr \<Rightarrow> string \<Rightarrow> heap \<Rightarrow> (py_error + hval) \<times> heap" where
  "create_study_sections_st format_other subject key_concepts exam_date h =
     (if key_concepts < length h then
        (case h ! key_concepts of
           HDict kvs \<Rightarrow> (Inl Ill_typed, h)
         | HList concepts \<Rightarrow>
             (let (sections, h1) = alloc (HList []) h in
              (case append_sections_st format_other sections 1 concepts h1 of
                 (Inl e, h2) \<Rightarrow> (Inl e, h2)
               | (Inr u, h2) \<Rightarrow>
                   (let (result, h3) =
                          alloc (HDict [
                            (''study_sections'', VRef sections),
                            (''total_sections'', VInt (list_len sections h2)),
                            (''current_section'', VInt 1),
                            (''next_step'', VStr ''teach_section'')]) h2
                    in (Inr (VRef result), h3)))))
      else (Inl Ill_typed, h))"

definition get_student_info_st ::
  "string \<Rightarrow> string \<Rightarrow> string \<Rightarrow> string \<Rightarrow> heap \<Rightarrow> (py_error + hval) \<times> heap" where
  "get_student_info_st grade_level subject exam_date current_knowledge h =
     (let (student_profile, h1) =
            alloc (HDict [
              (''grade_level'', VStr grade_level),
              (''subject'', VStr subject),
              (''exam_date'', VStr exam_date),
              (''current_knowledge'', VStr current_knowledge),
              (''profile_complete'', VBool True)]) h;
          (result, h2) =
            alloc (HDict [
              (''student_profile'', VRef student_profile),
              (''next_step'', VStr ''research_subject'')]) h1
      in (Inr (VRef result), h2))"

definition research_subject_st ::
  "string \<Rightarrow> string \<Rightarrow> heap \<Rightarrow> (py_error + hval) \<times> heap" where
  "research_subject_st subject grade_level h =
     (let (key_concepts, h1) =
            alloc (HList [
              VStr ''Fundamental principles'',
              VStr ''Core theories and applications'',
              VStr ''Problem-solving techniques'',
              VStr ''Common exam topics'']) h;
          (difficulty_areas, h2) =
            alloc (HList [
              VStr ''Abstract concepts'',
              VStr ''Mathematical applications'',
              VStr ''Memorization requirements'']) h1;
          (result, h3) =
            alloc (HDict [
              (''subject_overview'',
                 VStr (''Research completed for '' @ subject @ '' at '' @ grade_level @ '' level'')),
              (''key_concepts'', VRef key_concepts),
              (''difficulty_areas'', VRef difficulty_areas),
              (''next_step'', VStr ''create_study_sections'')]) h2
      in (Inr (VRef result), h3))"

definition teach_section_st ::
  "int \<Rightarrow> string \<Rightarrow> string \<Rightarrow> heap \<Rightarrow> (py_error + hval) \<times> heap" where
  "teach_section_st section_number section_title student_grade h =
     (let (section_taught, h1) =
            alloc (HDict [
              (''number'', VInt section_number),
              (''title'', VStr section_title),
              (''explanations_provided'', VBool True),
              (''examples_given'', VBool True),
              (''grade_appropriate'', VStr student_grade)]) h;
          (result, h2) =
            alloc (HDict [
              (''section_taught'', VRef section_taught),
              (''teaching_summary'',
                 VStr (''Completed teaching '' @ section_title
                       @ '' with explanations and examples suitable for '' @ student_grade)),
              (''next_step'', VStr ''quiz_section'')]) h1
      in (Inr (VRef result), h2))"

definition quiz_section_st ::
  "int \<Rightarrow> string \<Rightarrow> string \<Rightarrow> heap \<Rightarrow> (py_error + hval) \<times> heap" where
  "quiz_section_st section_number section_title difficulty_level h =
     (let (quiz_administered, h1) =
            alloc (HDict [
              (''section'', VInt section_number),
              (''title'', VStr section_title),
              (''difficulty'', VStr difficulty_level),
              (''questions_asked'', VInt 5),
              (''answers_received'', VBool True)]) h;
          (result, h2) =
            alloc (HDict [
              (''quiz_administered'', VRef quiz_administered),
              (''next_step'', VStr ''check_understanding'')]) h1
      in (Inr (VRef result), h2))"

text \<open>\<^verbatim>\<open>quiz_results\<close> is the address of the caller's dict; the body never follows it.\<close>

definition check_understanding_st ::
  "addr \<Rightarrow> pyfloat \<Rightarrow> heap \<Rightarrow> (py_error + hval) \<times> heap" where
  "check_understanding_st quiz_results passing_threshold h =
     (let understanding_level = Finite 0.75 in
      if float_ge understanding_level passing_threshold then
        (let (result, h1) =
               alloc (HDict [
                 (''understanding_sufficient'', VBool True),
                 (''score'', VFloat understanding_level),
                 (''next_action'', VStr ''proceed_to_next_section''),
                 (''message'',
                    VStr ''Great job! You've mastered this section. Let's move to the next one.'')]) h
         in (Inr (VRef result), h1))
      else
        (let (weak_concepts, h1) = alloc (HList [VStr ''Concept A'', VStr ''Concept B'']) h;
             (result, h2) =
               alloc (HDict [
                 (''understanding_sufficient'', VBool False),
                 (''score'', VFloat understanding_level),
                 (''next_action'', VStr ''review_and_reteach''),
                 (''weak_concepts'', VRef weak_concepts),
                 (''message'',
                    VStr ''Let's review some concepts you're still working on, then try the quiz again.'')]) h1
         in (Inr (VRef result), h2)))"

text \<open>
  A call of one of the six tools registered with \<^verbatim>\<open>root_agent\<close>, with its arguments
  (\<open>None\<close> for an optional argument left out), and what the call does to the store.
\<close>

datatype tool_call =
    Get_student_info string string string string
  | Research_subject string string
  | Create_study_sections string addr string
  | Teach_section int string string
  | Quiz_section int string "string option"
  | Check_understanding addr "pyfloat option"

fun exec :: "formatter \<Rightarrow> tool_call \<Rightarrow> heap \<Rightarrow> (py_error + hval) \<times> heap" where
  "exec format_other (Get_student_info grade_level subject exam_date current_knowledge) h =
     get_student_info_st grade_level subject exam_date current_knowledge h"
| "exec format_other (Research_subject subject grade_level) h =
     research_subject_st subject grade_level h"
| "exec format_other (Create_study_sections subject key_concepts exam_date) h =
     create_study_sections_st format_other subject key_concepts exam_date h"
| "exec format_other (Teach_section section_number section_title student_grade) h =
     teach_section_st section_number section_title student_grade h"
| "exec format_other (Quiz_section section_number section_title difficulty_level) h =
     quiz_section_st section_number section_title
       (case difficulty_level of None \<Rightarrow> ''medium'' | Some d \<Rightarrow> d) h"
| "exec format_other (Check_understanding quiz_results passing_threshold) h =
     check_understanding_st quiz_results
       (case passing_threshold of None \<Rightarrow> Finite 0.8 | Some t \<Rightarrow> t) h"


text \<open>
  The value that a result stands for: references are followed, at most \<open>n\<close> deep, and
  \<open>None\<close> means that a reference leads nowhere or that the nesting is deeper. This is
  what \<^verbatim>\<open>==\<close> compares and what the caller reads.
\<close>

fun fetch :: "nat \<Rightarrow> heap \<Rightarrow> hval \<Rightarrow> pyval option" where
  "fetch n h VNone = Some PNone"
| "fetch n h (VBool b) = Some (PBool b)"
| "fetch n h (VInt i) = Some (PInt i)"
| "fetch n h (VFloat x) = Some (PFloat x)"
| "fetch n h (VStr s) = Some (PStr s)"
| "fetch 0 h (VRef a) = None"
| "fetch (Suc n) h (VRef a) =
     (if a < length h then
        (case h ! a of
           HList vs \<Rightarrow> map_option PList (those (map (fetch n h) vs))
         | HDict kvs \<Rightarrow>
             map_option PDict
               (those (map (\<lambda>kv. map_option (Pair (fst kv)) (fetch n h (snd kv))) kvs)))
      else None)"

text \<open>
  What a call is seen to do: the exception, or the value of the result in the store the
  call leaves. The results of the tools nest four deep.
\<close>

fun observe :: "(py_error + hval) \<times> heap \<Rightarrow> (py_error + pyval) option" where
  "observe (Inl e, h) = Some (Inl e)"
| "observe (Inr v, h) = map_option Inr (fetch 4 h v)"

section \<open>Calls, their arguments and their results\<close>

text \<open>
  The calls the statements about the store are made for: those whose \<^verbatim>\<open>key_concepts\<close>
  refers to a list of strings, as the docstring has it ("key concepts from research").
  The list is to have fewer than \<open>10 ^ max_str_digits\<close> elements, so that the counter
  can be printed; any list that fits in memory has.
\<close>

fun is_str :: "hval \<Rightarrow> bool" where
  "is_str (VStr s) = True"
| "is_str v = False"

fun the_str :: "hval \<Rightarrow> string" where
  "the_str (VStr s) = s"
| "the_str v = []"

fun strings_input :: "heap \<Rightarrow> tool_call \<Rightarrow> bool" where
  "strings_input h (Create_study_sections subject key_concepts exam_date) =
     (key_concepts < length h \<and>
      (case h ! key_concepts of
         HList concepts \<Rightarrow>
           list_all is_str concepts \<and> int (length concepts) < 10 ^ max_str_digits
       | HDict kvs \<Rightarrow> False))"
| "strings_input h c = True"


text \<open>
  The result that the functions of the first part give for a call, the strings of
  \<^verbatim>\<open>key_concepts\<close> read from the store.
\<close>

definition strings_at :: "heap \<Rightarrow> addr \<Rightarrow> string list" where
  "strings_at h a = (case h ! a of HList vs \<Rightarrow> map the_str vs | HDict kvs \<Rightarrow> [])"

fun result_value :: "heap \<Rightarrow> tool_call \<Rightarrow> pyval" where
  "result_value h (Get_student_info grade_level subject exam_date current_knowledge) =
     get_student_info grade_level subject exam_date current_knowledge"
| "result_value h (Research_subject subject grade_level) = research_subject subject grade_level"
| "result_value h (Create_study_sections subject key_concepts exam_date) =
     create_study_sections subject (strings_at h key_concepts) exam_date"
| "result_value h (Teach_section section_number section_title student_grade) =
     teach_section section_number section_title student_grade"
| "result_value h (Quiz_section section_number section_title difficulty_level) =
     quiz_section_call section_number section_title difficulty_level"
| "result_value h (Check_understanding quiz_results passing_threshold) =
     check_understanding_call [] passing_threshold"

text \<open>
  The objects that the loop creates for a list of strings, two for each: the list of
  objectives at \<open>b\<close>, the dict of the section at \<open>b + 1\<close>, and so on upwards; and
  the references to the dicts, which the loop appends to \<^verbatim>\<open>sections\<close>.
\<close>

fun section_cells :: "int \<Rightarrow> addr \<Rightarrow> string list \<Rightarrow> hobj list" where
  "section_cells i b [] = []"
| "section_cells i b (concept # rest) =
     HList [
       VStr (''Master '' @ concept),
       VStr (''Apply '' @ concept @ '' to problems''),
       VStr (''Explain '' @ concept @ '' clearly'')]
     # HDict [
       (''section_number'', VInt i),
       (''title'', VStr concept),
       (''estimated_time'', VStr ''3-5 study sessions''),
       (''prerequisites'',
          VStr (if i > 1 then ''Understanding of previous '' @ str_int (i - 1) @ '' sections''
                else ''Basic foundational knowledge'')),
       (''learning_objectives'', VRef b),
       (''status'', VStr ''not_started'')]
     # section_cells (i + 1) (b + 2) rest"

fun section_refs :: "addr \<Rightarrow> string list \<Rightarrow> hval list" where
  "section_refs b [] = []"
| "section_refs b (concept # rest) = VRef (b + 1) # section_refs (b + 2) rest"

text \<open>
  A formatter to name where a statement is about one call whose list holds no float and
  no container, so that the parameter is never consulted.
\<close>

definition format_unmodelled :: formatter where
  "format_unmodelled h v = Inl RecursionError"

section \<open>Facts about the value model\<close>

text \<open>
  For a finite bound, a threshold that is not at most the bound is above it or is NaN.
\<close>

lemma not_le_iff_gt_or_nan:
  "(\<not> float_le t (Finite c)) = (float_gt t (Finite c) \<or> t = NaN)"
  by (cases t) (auto simp: float_le_def)

text \<open>
  A number below ten is rendered as its one digit; some renderings, as Python prints them.
\<close>

lemma str_nat_digit: "n < 10 \<Longrightarrow> str_nat n = [digit_char n]"
  by (simp add: str_nat.simps)

lemma str_int_examples:
  "str_int 0 = ''0''" "str_int 7 = ''7''" "str_int 12 = ''12''" "str_int 305 = ''305''"
  "str_int (- 48) = ''-48''"
  by (simp_all add: str_int_def str_nat.simps digit_char_def)

text \<open>
  The loop of \<^verbatim>\<open>create_study_sections\<close> appends one dict per concept to the list it
  started with; the dict at position \<open>k\<close> carries the counter \<open>i + k\<close>.
\<close>

lemma length_append_sections:
  "length (append_sections i key_concepts sections) = length sections + length key_concepts"
  by (induction key_concepts arbitrary: i sections) simp_all

lemma append_sections_acc:
  "append_sections i key_concepts sections = sections @ append_sections i key_concepts []"
proof (induction key_concepts arbitrary: i sections)
  case Nil
  show ?case by simp
next
  case (Cons concept rest)
  have "append_sections i (concept # rest) sections
          = (sections @ [section_dict i concept]) @ append_sections (i + 1) rest []"
    using Cons.IH [of "i + 1" "sections @ [section_dict i concept]"] by simp
  also have "\<dots> = sections @ append_sections i (concept # rest) []"
    using Cons.IH [of "i + 1" "[section_dict i concept]"] by simp
  finally show ?case .
qed

lemma append_sections_Cons:
  "append_sections i (concept # rest) []
     = section_dict i concept # append_sections (i + 1) rest []"
  using append_sections_acc [of "i + 1" rest "[section_dict i concept]"] by simp

lemma append_sections_nth:
  "k < length key_concepts \<Longrightarrow>
     append_sections i key_concepts [] ! k = section_dict (i + int k) (key_concepts ! k)"
proof (induction key_concepts arbitrary: i k)
  case Nil
  then show ?case by simp
next
  case (Cons concept rest)
  show ?case
  proof (cases k)
    case 0
    then show ?thesis by (simp only: append_sections_Cons) simp
  next
    case (Suc m)
    with Cons.prems have "m < length rest" by simp
    then have "append_sections (i + 1) rest [] ! m = section_dict (i + 1 + int m) (rest ! m)"
      by (rule Cons.IH)
    moreover have "i + 1 + int m = i + int (Suc m)" by simp
    ultimately show ?thesis using Suc by (simp only: append_sections_Cons nth_Cons_Suc)
  qed
qed

section \<open>Student intake and subject research\<close>

text \<open>
  C5. For all four string arguments, \<^verbatim>\<open>get_student_info\<close> returns a dict whose
  \<^verbatim>\<open>student_profile\<close> holds the arguments unchanged under \<^verbatim>\<open>grade_level\<close>, \<^verbatim>\<open>subject\<close>,
  \<^verbatim>\<open>exam_date\<close> and \<^verbatim>\<open>current_knowledge\<close>, with \<^verbatim>\<open>profile_complete\<close> true, and whose
  \<^verbatim>\<open>next_step\<close> is \<^verbatim>\<open>"research_subject"\<close>.
\<close>

theorem get_student_info_echo:
  "\<exists>profile.
     dict_get (get_student_info grade_level subject exam_date current_knowledge) ''student_profile''
       = Some profile
     \<and> dict_get profile ''grade_level'' = Some (PStr grade_level)
     \<and> dict_get profile ''subject'' = Some (PStr subject)
     \<and> dict_get profile ''exam_date'' = Some (PStr exam_date)
     \<and> dict_get profile ''current_knowledge'' = Some (PStr current_knowledge)
     \<and> dict_get profile ''profile_complete'' = Some (PBool True)
     \<and> dict_get (get_student_info grade_level subject exam_date current_knowledge) ''next_step''
         = Some (PStr ''research_subject'')"
  by (simp add: get_student_info_def)

text \<open>
  C4. For every subject and grade level, \<^verbatim>\<open>research_subject\<close> returns a dict whose
  \<^verbatim>\<open>key_concepts\<close> is a list of exactly 4 elements and whose \<^verbatim>\<open>difficulty_areas\<close> is a list of
  exactly 3 elements; both lists are the same constants whatever the arguments.
\<close>

theorem research_subject_constants:
  "dict_get (research_subject subject grade_level) ''key_concepts''
     = Some (PList [PStr ''Fundamental principles'', PStr ''Core theories and applications'',
                    PStr ''Problem-solving techniques'', PStr ''Common exam topics''])
   \<and> length [PStr ''Fundamental principles'', PStr ''Core theories and applications'',
              PStr ''Problem-solving techniques'', PStr ''Common exam topics''] = 4
   \<and> dict_get (research_subject subject grade_level) ''difficulty_areas''
       = Some (PList [PStr ''Abstract concepts'', PStr ''Mathematical applications'',
                      PStr ''Memorization requirements''])
   \<and> length [PStr ''Abstract concepts'', PStr ''Mathematical applications'',
              PStr ''Memorization requirements''] = 3
   \<and> dict_get (research_subject subject grade_level) ''key_concepts''
       = dict_get (research_subject subject' grade_level') ''key_concepts''
   \<and> dict_get (research_subject subject grade_level) ''difficulty_areas''
       = dict_get (research_subject subject' grade_level') ''difficulty_areas''"
  by (simp add: research_subject_def)

section \<open>The section planner\<close>



text \<open>
  C3. In the result of \<^verbatim>\<open>create_study_sections\<close> the first section has the
  prerequisites \<^verbatim>\<open>"Basic foundational knowledge"\<close>, and every later section \<open>i\<close>
  has \<^verbatim>\<open>"Understanding of previous {i-1} sections"\<close>, the number written in decimal.
\<close>

theorem create_study_sections_prerequisites:
  "\<exists>sections.
     dict_get (create_study_sections subject key_concepts exam_date) ''study_sections''
       = Some (PList sections)
     \<and> length sections = length key_concepts
     \<and> (\<forall>i. 1 \<le> i \<and> i \<le> length key_concepts \<longrightarrow>
            dict_get (sections ! (i - 1)) ''prerequisites''
              = Some (PStr (if i = 1 then ''Basic foundational knowledge''
                            else ''Understanding of previous '' @ str_int (int i - 1) @ '' sections'')))"
proof -
  let ?sections = "append_sections 1 key_concepts []"
  have len: "length ?sections = length key_concepts"
    by (simp add: length_append_sections)
  have pre: "dict_get (?sections ! (i - 1)) ''prerequisites''
               = Some (PStr (if i = 1 then ''Basic foundational knowledge''
                             else ''Understanding of previous '' @ str_int (int i - 1) @ '' sections''))"
    if "1 \<le> i \<and> i \<le> length key_concepts" for i
  proof -
    from that have "i - 1 < length key_concepts" by arith
    then have "?sections ! (i - 1) = section_dict (1 + int (i - 1)) (key_concepts ! (i - 1))"
      by (rule append_sections_nth)
    moreover from that have "1 + int (i - 1) = int i" by arith
    ultimately have "?sections ! (i - 1) = section_dict (int i) (key_concepts ! (i - 1))"
      by simp
    moreover from that have "(int i > 1) = (i \<noteq> 1)" by arith
    ultimately show ?thesis by (simp add: section_dict_def)
  qed
  have "dict_get (create_study_sections subject key_concepts exam_date) ''study_sections''
          = Some (PList ?sections)"
    by (simp add: create_study_sections_def Let_def)
  with len pre show ?thesis by blast
qed

text \<open>
  The example of the specification: \<^verbatim>\<open>create_study_sections("Biology", ["Cells", "Genetics"], "2024-06-01")\<close>
  has two sections, the second with \<^verbatim>\<open>"Understanding of previous 1 sections"\<close>.
\<close>

theorem create_study_sections_biology_witness:
  "\<exists>sections.
     dict_get (create_study_sections ''Biology'' [''Cells'', ''Genetics''] ''2024-06-01'')
         ''study_sections'' = Some (PList sections)
     \<and> length sections = 2
     \<and> dict_get (sections ! 0) ''prerequisites'' = Some (PStr ''Basic foundational knowledge'')
     \<and> dict_get (sections ! 1) ''prerequisites''
         = Some (PStr ''Understanding of previous 1 sections'')"
proof -
  from create_study_sections_prerequisites [of "''Biology''" "[''Cells'', ''Genetics'']" "''2024-06-01''"]
  obtain sections where s:
    "dict_get (create_study_sections ''Biology'' [''Cells'', ''Genetics''] ''2024-06-01'')
         ''study_sections'' = Some (PList sections)"
    "length sections = 2"
    "\<forall>i. 1 \<le> i \<and> i \<le> (2::nat) \<longrightarrow>
        dict_get (sections ! (i - 1)) ''prerequisites''
          = Some (PStr (if i = 1 then ''Basic foundational knowledge''
                        else ''Understanding of previous '' @ str_int (int i - 1) @ '' sections''))"
    by auto
  have one: "str_int 1 = ''1''"
    by (simp add: str_int_def str_nat_digit digit_char_def)
  from s(3) [rule_format, of 1] s(3) [rule_format, of 2] one
  have "dict_get (sections ! 0) ''prerequisites'' = Some (PStr ''Basic foundational knowledge'')"
    "dict_get (sections ! 1) ''prerequisites'' = Some (PStr ''Understanding of previous 1 sections'')"
    by simp_all
  with s(1,2) show ?thesis by blast
qed

section \<open>The section quiz\<close>

text \<open>
  C7. For every section number, title and difficulty level, \<^verbatim>\<open>quiz_section\<close> returns a
  dict whose \<^verbatim>\<open>quiz_administered\<close> echoes the number and the title, has
  \<^verbatim>\<open>questions_asked\<close> 5 and \<^verbatim>\<open>answers_received\<close> true whatever the input, and has the given
  difficulty; a call that omits the difficulty is the call with \<^verbatim>\<open>"medium"\<close>.
\<close>

theorem quiz_section_acknowledgment:
  "\<exists>quiz.
     dict_get (quiz_section section_number section_title difficulty_level) ''quiz_administered''
       = Some quiz
     \<and> dict_get quiz ''section'' = Some (PInt section_number)
     \<and> dict_get quiz ''title'' = Some (PStr section_title)
     \<and> dict_get quiz ''difficulty'' = Some (PStr difficulty_level)
     \<and> dict_get quiz ''questions_asked'' = Some (PInt 5)
     \<and> dict_get quiz ''answers_received'' = Some (PBool True)
     \<and> quiz_section_call section_number section_title (Some difficulty_level)
         = quiz_section section_number section_title difficulty_level
     \<and> quiz_section_call section_number section_title None
         = quiz_section section_number section_title ''medium''"
  by (simp add: quiz_section_def quiz_section_call_def)

section \<open>The understanding check\<close>

text \<open>
  C1, as the code has it. The field \<^verbatim>\<open>understanding_sufficient\<close> of the result of
  \<^verbatim>\<open>check_understanding\<close> is true exactly when \<^verbatim>\<open>passing_threshold <= 0.75\<close>, and
  false for every other threshold: when \<^verbatim>\<open>passing_threshold > 0.75\<close>, and also when
  the threshold is NaN, which is neither. The whole result is the same for any two
  \<^verbatim>\<open>quiz_results\<close>.
\<close>

theorem check_understanding_sufficient:
  "dict_get (check_understanding quiz_results passing_threshold) ''understanding_sufficient''
     = Some (PBool (float_le passing_threshold (Finite 0.75)))
   \<and> ((dict_get (check_understanding quiz_results passing_threshold) ''understanding_sufficient''
         = Some (PBool False))
       = (float_gt passing_threshold (Finite 0.75) \<or> passing_threshold = NaN))
   \<and> check_understanding quiz_results passing_threshold
       = check_understanding quiz_results' passing_threshold"
proof (cases "float_ge (Finite 0.75) passing_threshold")
  case True
  then have "\<not> float_gt passing_threshold (Finite 0.75)" "passing_threshold \<noteq> NaN"
    by (cases passing_threshold; simp)+
  with True show ?thesis
    by (simp add: check_understanding_def float_le_def)
next
  case False
  then have "float_gt passing_threshold (Finite 0.75) \<or> passing_threshold = NaN"
    by (cases passing_threshold) simp_all
  with False show ?thesis
    by (simp add: check_understanding_def float_le_def)
qed

text \<open>
  C1 as stated fails at a NaN threshold: \<^verbatim>\<open>check_understanding({}, float("nan"))\<close>
  answers \<^verbatim>\<open>understanding_sufficient = False\<close> although \<^verbatim>\<open>nan > 0.75\<close> is false.
\<close>

theorem check_understanding_nan_counterexample:
  "dict_get (check_understanding [] NaN) ''understanding_sufficient'' = Some (PBool False)
   \<and> \<not> float_gt NaN (Finite 0.75)"
  by (simp add: check_understanding_def)

text \<open>
  C6. When \<^verbatim>\<open>passing_threshold > 0.75\<close>, for every \<^verbatim>\<open>quiz_results\<close>, the result of
  \<^verbatim>\<open>check_understanding\<close> has \<^verbatim>\<open>understanding_sufficient\<close> false, \<^verbatim>\<open>next_action\<close>
  \<^verbatim>\<open>"review_and_reteach"\<close>, \<^verbatim>\<open>score\<close> 0.75 and \<^verbatim>\<open>weak_concepts\<close> the list of
  \<^verbatim>\<open>"Concept A"\<close> and \<^verbatim>\<open>"Concept B"\<close>.
\<close>

theorem check_understanding_insufficient:
  assumes "float_gt passing_threshold (Finite 0.75)"
  shows "dict_get (check_understanding quiz_results passing_threshold) ''understanding_sufficient''
           = Some (PBool False)
       \<and> dict_get (check_understanding quiz_results passing_threshold) ''next_action''
           = Some (PStr ''review_and_reteach'')
       \<and> dict_get (check_understanding quiz_results passing_threshold) ''score''
           = Some (PFloat (Finite 0.75))
       \<and> dict_get (check_understanding quiz_results passing_threshold) ''weak_concepts''
           = Some (PList [PStr ''Concept A'', PStr ''Concept B''])"
proof -
  from assms have "\<not> float_ge (Finite 0.75) passing_threshold"
    by (cases passing_threshold) simp_all
  then show ?thesis
    by (simp add: check_understanding_def)
qed

text \<open>
  The example of the specification, \<^verbatim>\<open>check_understanding({}, 0.9)\<close>.
\<close>

theorem check_understanding_insufficient_witness:
  "float_gt (Finite 0.9) (Finite 0.75)
   \<and> dict_get (check_understanding [] (Finite 0.9)) ''understanding_sufficient'' = Some (PBool False)
   \<and> dict_get (check_understanding [] (Finite 0.9)) ''next_action'' = Some (PStr ''review_and_reteach'')
   \<and> dict_get (check_understanding [] (Finite 0.9)) ''score'' = Some (PFloat (Finite 0.75))
   \<and> dict_get (check_understanding [] (Finite 0.9)) ''weak_concepts''
       = Some (PList [PStr ''Concept A'', PStr ''Concept B''])"
proof -
  have h: "float_gt (Finite 0.9) (Finite 0.75)" by simp
  from check_understanding_insufficient [OF h, of "[]"] h show ?thesis by blast
qed

text \<open>
  C10. When \<^verbatim>\<open>passing_threshold <= 0.75\<close>, the result of \<^verbatim>\<open>check_understanding\<close> has no
  key \<^verbatim>\<open>weak_concepts\<close>: its keys are exactly \<^verbatim>\<open>understanding_sufficient\<close> (true),
  \<^verbatim>\<open>score\<close> (0.75), \<^verbatim>\<open>next_action\<close> (\<^verbatim>\<open>"proceed_to_next_section"\<close>) and \<^verbatim>\<open>message\<close>
  (a string).
\<close>

theorem check_understanding_proceed:
  assumes "float_le passing_threshold (Finite 0.75)"
  shows "dict_get (check_understanding quiz_results passing_threshold) ''weak_concepts'' = None
       \<and> dict_keys (check_understanding quiz_results passing_threshold)
           = [''understanding_sufficient'', ''score'', ''next_action'', ''message'']
       \<and> dict_get (check_understanding quiz_results passing_threshold) ''understanding_sufficient''
           = Some (PBool True)
       \<and> dict_get (check_understanding quiz_results passing_threshold) ''score''
           = Some (PFloat (Finite 0.75))
       \<and> dict_get (check_understanding quiz_results passing_threshold) ''next_action''
           = Some (PStr ''proceed_to_next_section'')
       \<and> (\<exists>message. dict_get (check_understanding quiz_results passing_threshold) ''message''
             = Some (PStr message))"
  using assms by (simp add: check_understanding_def float_le_def)

text \<open>
  A threshold equal to the score, with a quiz result that is not empty.
\<close>

theorem check_understanding_proceed_witness:
  "float_le (Finite 0.75) (Finite 0.75)
   \<and> dict_get (check_understanding [(''score'', PInt 5)] (Finite 0.75)) ''weak_concepts'' = None
   \<and> dict_keys (check_understanding [(''score'', PInt 5)] (Finite 0.75))
       = [''understanding_sufficient'', ''score'', ''next_action'', ''message'']
   \<and> dict_get (check_understanding [(''score'', PInt 5)] (Finite 0.75)) ''understanding_sufficient''
       = Some (PBool True)"
proof -
  have h: "float_le (Finite 0.75) (Finite 0.75)" by (simp add: float_le_def)
  from check_understanding_proceed [OF h, of "[(''score'', PInt 5)]"] h show ?thesis by blast
qed

section \<open>Facts about the tools on the store\<close>

text \<open>
  A number below \<open>10 ^ k\<close> has at most \<open>k\<close> digits, and \<open>10 ^ k\<close> has one more.
  So an int from 0 up to the limit is printed, and \<open>10 ^ max_str_digits\<close> is not.
\<close>

lemma str_nat_length_le:
  "0 < k \<Longrightarrow> n < 10 ^ k \<Longrightarrow> length (str_nat n) \<le> k"
proof (induction n arbitrary: k rule: str_nat.induct)
  case (1 n)
  show ?case
  proof (cases "n < 10")
    case True
    with "1.prems" show ?thesis by (simp add: str_nat.simps Suc_leI)
  next
    case False
    with "1.prems" obtain m where k: "k = Suc m" by (cases k) auto
    from False "1.prems" k have "0 < m" by (cases m) auto
    moreover from "1.prems" k have "n div 10 < 10 ^ m"
      by (simp add: less_mult_imp_div_less mult.commute)
    ultimately have "length (str_nat (n div 10)) \<le> m"
      using "1.IH" False by simp
    with False k show ?thesis by (subst str_nat.simps) simp
  qed
qed

lemma str_nat_power10: "length (str_nat (10 ^ k)) = Suc k"
proof (induction k)
  case 0
  show ?case by (simp add: str_nat.simps)
next
  case (Suc k)
  have "\<not> (10::nat) ^ Suc k < 10" by simp
  then have "str_nat (10 ^ Suc k) = str_nat (10 ^ Suc k div 10) @ [digit_char (10 ^ Suc k mod 10)]"
    by (subst str_nat.simps) simp
  with Suc show ?case by simp
qed

lemma format_int_small:
  assumes "0 \<le> i" and "i < 10 ^ max_str_digits"
  shows "format_int i = Inr (str_int i)"
proof -
  have pos: "0 < max_str_digits" by (simp add: max_str_digits_def)
  from assms have "nat \<bar>i\<bar> < 10 ^ max_str_digits"
    by (simp add: nat_less_iff)
  with pos have "length (str_nat (nat \<bar>i\<bar>)) \<le> max_str_digits"
    by (rule str_nat_length_le)
  then show ?thesis by (simp add: format_int_def)
qed

lemma format_int_power10: "format_int (10 ^ max_str_digits) = Inl ValueError"
proof -
  have "nat \<bar>(10::int) ^ max_str_digits\<bar> = 10 ^ max_str_digits"
    by (simp add: nat_power_eq)
  then have "length (str_nat (nat \<bar>(10::int) ^ max_str_digits\<bar>)) = Suc max_str_digits"
    by (simp only: str_nat_power10)
  then show ?thesis
    unfolding format_int_def by (simp only: lessI if_True)
qed

text \<open>
  On a list of strings the loop runs to its end. It leaves the store as it was but for
  \<^verbatim>\<open>sections\<close>, which has gained one reference for each concept, and for the new objects
  above.
\<close>

lemma new_section_string:
  assumes "1 \<le> i" and "i \<le> 10 ^ max_str_digits"
  shows "new_section format_other i (VStr concept) h
           = (Inr (Suc (length h)), h @ section_cells i (length h) [concept])"
proof -
  have "format_int (i - 1) = Inr (str_int (i - 1))"
    using assms by (intro format_int_small) simp_all
  then show ?thesis
    by (simp add: new_section_def alloc_def)
qed

lemma list_append_fresh:
  assumes "s < length h" and "h ! s = HList acc"
  shows "list_append s v (h @ cells) = h[s := HList (acc @ [v])] @ cells"
  using assms by (simp add: list_append_def nth_append list_update_append)

lemma section_cells_length: "length (section_cells i b concepts) = 2 * length concepts"
  by (induction concepts arbitrary: i b) simp_all

lemma append_sections_st_strings:
  assumes "s < length h" and "h ! s = HList acc"
    and "1 \<le> i" and "i + int (length concepts) \<le> 10 ^ max_str_digits + 1"
  shows "append_sections_st format_other s i (map VStr concepts) h
           = (Inr (), h[s := HList (acc @ section_refs (length h) concepts)]
                        @ section_cells i (length h) concepts)"
  using assms
proof (induction concepts arbitrary: i h acc)
  case Nil
  then show ?case by (simp add: list_update_same_conv [THEN iffD2])
next
  case (Cons concept rest)
  let ?h1 = "h[s := HList (acc @ [VRef (Suc (length h))])] @ section_cells i (length h) [concept]"
  from Cons.prems have i: "i \<le> 10 ^ max_str_digits" by simp
  have step: "append_sections_st format_other s i (map VStr (concept # rest)) h
                = append_sections_st format_other s (i + 1) (map VStr rest) ?h1"
    using Cons.prems(1,2) new_section_string [OF Cons.prems(3) i]
    by (simp add: list_append_fresh del: section_cells.simps)
  have "s < length ?h1" using Cons.prems(1) by simp
  moreover have "?h1 ! s = HList (acc @ [VRef (Suc (length h))])"
    using Cons.prems(1) by (simp add: nth_append)
  moreover have "1 \<le> i + 1" using Cons.prems(3) by simp
  moreover have "i + 1 + int (length rest) \<le> 10 ^ max_str_digits + 1"
    using Cons.prems(4) by simp
  ultimately have "append_sections_st format_other s (i + 1) (map VStr rest) ?h1
      = (Inr (), ?h1[s := HList ((acc @ [VRef (Suc (length h))]) @ section_refs (length ?h1) rest)]
                   @ section_cells (i + 1) (length ?h1) rest)"
    by (rule Cons.IH)
  moreover have "length ?h1 = length h + 2" by simp
  ultimately show ?case
    using step Cons.prems(1) by (simp add: list_update_append)
qed

lemma limit_ge_ten: "(10::int) \<le> 10 ^ max_str_digits"
  by (rule self_le_power) (simp_all add: max_str_digits_def)

text \<open>
  Followed from the references that the loop appended, the new objects are the dicts
  that \<^verbatim>\<open>append_sections\<close> lists.
\<close>

lemma section_refs_length: "length (section_refs b concepts) = length concepts"
  by (induction concepts arbitrary: b) simp_all

lemma fetch_section_refs:
  "those (map (fetch 2 (pre @ section_cells i (length pre) concepts @ post))
            (section_refs (length pre) concepts))
     = Some (append_sections i concepts [])"
proof (induction concepts arbitrary: pre i)
  case Nil
  show ?case by simp
next
  case (Cons concept rest)
  let ?h = "pre @ section_cells i (length pre) (concept # rest) @ post"
  let ?objectives = "HList [VStr (''Master '' @ concept),
      VStr (''Apply '' @ concept @ '' to problems''), VStr (''Explain '' @ concept @ '' clearly'')]"
  let ?section = "HDict [(''section_number'', VInt i), (''title'', VStr concept),
      (''estimated_time'', VStr ''3-5 study sessions''),
      (''prerequisites'',
         VStr (if i > 1 then ''Understanding of previous '' @ str_int (i - 1) @ '' sections''
               else ''Basic foundational knowledge'')),
      (''learning_objectives'', VRef (length pre)), (''status'', VStr ''not_started'')]"
  have split: "?h = (pre @ [?objectives, ?section])
                      @ section_cells (i + 1) (length (pre @ [?objectives, ?section])) rest @ post"
    by simp
  have at0: "?h ! length pre = ?objectives" by simp
  have at1: "?h ! Suc (length pre) = ?section" by (simp add: nth_append)
  have len: "Suc (length pre) < length ?h" by simp
  have "fetch 1 ?h (VRef (length pre)) = Some (PList [PStr (''Master '' @ concept),
      PStr (''Apply '' @ concept @ '' to problems''), PStr (''Explain '' @ concept @ '' clearly'')])"
    using len by (simp only: One_nat_def fetch.simps at0) simp
  then have head: "fetch 2 ?h (VRef (Suc (length pre))) = Some (section_dict i concept)"
    using len by (simp only: numeral_2_eq_2 fetch.simps at1) (simp add: section_dict_def)
  have "those (map (fetch 2 ?h) (section_refs (length (pre @ [?objectives, ?section])) rest))
          = Some (append_sections (i + 1) rest [])"
    by (subst split) (rule Cons.IH)
  then have tail: "those (map (fetch 2 ?h) (section_refs (length pre + 2) rest))
          = Some (append_sections (i + 1) rest [])"
    by simp
  show ?case
    by (simp only: section_refs.simps list.map those.simps head tail append_sections_Cons
        Suc_eq_plus1 [symmetric]) simp
qed

text \<open>
  For a call on strings, the value of the result in the store is the value that the
  functions of the first part give.
\<close>

lemma strings_are_their_text: "list_all is_str vs \<Longrightarrow> map VStr (map the_str vs) = vs"
proof (induction vs)
  case Nil
  show ?case by simp
next
  case (Cons v vs)
  then show ?case by (cases v) simp_all
qed

lemma create_study_sections_st_strings:
  assumes "key_concepts < length h" and "h ! key_concepts = HList (map VStr concepts)"
    and "int (length concepts) < 10 ^ max_str_digits"
  shows "create_study_sections_st format_other subject key_concepts exam_date h
           = (Inr (VRef (Suc (length h) + 2 * length concepts)),
              h @ [HList (section_refs (Suc (length h)) concepts)]
                @ section_cells 1 (Suc (length h)) concepts
                @ [HDict [(''study_sections'', VRef (length h)),
                          (''total_sections'', VInt (int (length concepts))),
                          (''current_section'', VInt 1),
                          (''next_step'', VStr ''teach_section'')]])"
proof -
  let ?h1 = "h @ [HList []]"
  have "append_sections_st format_other (length h) 1 (map VStr concepts) ?h1
          = (Inr (), ?h1[length h := HList ([] @ section_refs (length ?h1) concepts)]
                       @ section_cells 1 (length ?h1) concepts)"
    using assms(3) by (intro append_sections_st_strings) simp_all
  then have loop: "append_sections_st format_other (length h) 1 (map VStr concepts) ?h1
          = (Inr (), h @ [HList (section_refs (Suc (length h)) concepts)]
                       @ section_cells 1 (Suc (length h)) concepts)"
    by simp
  show ?thesis
    using assms(1,2)
    by (simp add: create_study_sections_st_def alloc_def loop list_len_def section_refs_length
        section_cells_length)
qed

lemma create_study_sections_st_value:
  assumes "key_concepts < length h" and "h ! key_concepts = HList (map VStr concepts)"
    and "int (length concepts) < 10 ^ max_str_digits"
  shows "observe (create_study_sections_st format_other subject key_concepts exam_date h)
           = Some (Inr (create_study_sections subject concepts exam_date))"
proof -
  let ?pre = "h @ [HList (section_refs (Suc (length h)) concepts)]"
  let ?result = "HDict [(''study_sections'', VRef (length h)),
                        (''total_sections'', VInt (int (length concepts))),
                        (''current_section'', VInt 1),
                        (''next_step'', VStr ''teach_section'')]"
  let ?h3 = "?pre @ section_cells 1 (length ?pre) concepts @ [?result]"
  let ?r = "Suc (length h) + 2 * length concepts"
  have h3: "h @ [HList (section_refs (Suc (length h)) concepts)]
              @ section_cells 1 (Suc (length h)) concepts @ [?result] = ?h3"
    by simp
  have r: "?r < length ?h3" "length h < length ?h3"
    by (simp_all add: section_cells_length)
  have at_r: "?h3 ! ?r = ?result"
    by (simp add: nth_append section_cells_length)
  have at_s: "?h3 ! length h = HList (section_refs (Suc (length h)) concepts)"
    by (simp add: nth_append)
  have "those (map (fetch 2 ?h3) (section_refs (length ?pre) concepts))
          = Some (append_sections 1 concepts [])"
    by (rule fetch_section_refs)
  then have inner: "fetch 3 ?h3 (VRef (length h)) = Some (PList (append_sections 1 concepts []))"
    using r(2) by (simp only: numeral_3_eq_3 numeral_2_eq_2 fetch.simps at_s) simp
  have "fetch 4 ?h3 (VRef ?r) = Some (create_study_sections subject concepts exam_date)"
  proof -
    have four: "(4::nat) = Suc 3" by simp
    show ?thesis
      using r(1) inner
      by (simp only: four fetch.simps at_r)
         (simp add: create_study_sections_def Let_def length_append_sections)
  qed
  then show ?thesis
    by (simp only: create_study_sections_st_strings [OF assms] h3 observe.simps) simp
qed

lemma exec_value:
  assumes "strings_input h c"
  shows "observe (exec format_other c h) = Some (Inr (result_value h c))"
proof (cases c)
  case (Create_study_sections subject key_concepts exam_date)
  with assms obtain vs where vs: "key_concepts < length h" "h ! key_concepts = HList vs"
      "list_all is_str vs" "int (length vs) < 10 ^ max_str_digits"
    by (auto split: hobj.splits)
  from vs(3) have "map VStr (map the_str vs) = vs"
    by (rule strings_are_their_text)
  with vs(2) have "h ! key_concepts = HList (map VStr (map the_str vs))"
    by (simp only:)
  moreover from vs(4) have "int (length (map the_str vs)) < 10 ^ max_str_digits" by simp
  ultimately have "observe (create_study_sections_st format_other subject key_concepts exam_date h)
      = Some (Inr (create_study_sections subject (map the_str vs) exam_date))"
    using vs(1) by (intro create_study_sections_st_value)
  with Create_study_sections vs(2) show ?thesis by (simp add: strings_at_def)
next
  case (Get_student_info grade_level subject exam_date current_knowledge)
  then show ?thesis
    by (simp add: get_student_info_st_def get_student_info_def alloc_def nth_append
        eval_nat_numeral)
next
  case (Research_subject subject grade_level)
  then show ?thesis
    by (simp add: research_subject_st_def research_subject_def alloc_def nth_append
        eval_nat_numeral)
next
  case (Teach_section section_number section_title student_grade)
  then show ?thesis
    by (simp add: teach_section_st_def teach_section_def alloc_def nth_append eval_nat_numeral)
next
  case (Quiz_section section_number section_title difficulty_level)
  then show ?thesis
    by (simp add: quiz_section_st_def quiz_section_call_def quiz_section_def alloc_def nth_append
        eval_nat_numeral)
next
  case (Check_understanding quiz_results passing_threshold)
  then show ?thesis
    by (simp add: check_understanding_st_def check_understanding_call_def check_understanding_def
        alloc_def nth_append eval_nat_numeral Let_def)
qed










lemma result_value_is_dict: "is_dict (result_value h c)"
  by (cases c)
     (simp_all add: get_student_info_def research_subject_def create_study_sections_def Let_def
        teach_section_def quiz_section_call_def quiz_section_def check_understanding_call_def
        check_understanding_def)

section \<open>All six tools\<close>

text \<open>
  C8, as the code has it. No tool function raises for any input of the declared argument
  types when the elements of \<^verbatim>\<open>key_concepts\<close> are strings: each of the six then returns a
  dict. \<^verbatim>\<open>create_study_sections\<close> of an empty list of concepts returns the plan with no
  section, \<^verbatim>\<open>total_sections\<close> 0 and \<^verbatim>\<open>current_section\<close> 1.
\<close>

theorem tools_do_not_raise_on_strings:
  "(strings_input h c \<longrightarrow>
      (\<exists>result. observe (exec format_other c h) = Some (Inr result) \<and> is_dict result))
   \<and> (key_concepts < length h \<and> h ! key_concepts = HList [] \<longrightarrow>
        observe (exec format_other (Create_study_sections subject key_concepts exam_date) h)
          = Some (Inr (PDict [(''study_sections'', PList []), (''total_sections'', PInt 0),
                              (''current_section'', PInt 1), (''next_step'', PStr ''teach_section'')])))
   \<and> create_study_sections subject [] exam_date
       = PDict [(''study_sections'', PList []), (''total_sections'', PInt 0),
                (''current_section'', PInt 1), (''next_step'', PStr ''teach_section'')]"
proof (intro conjI impI)
  assume "strings_input h c"
  then have "observe (exec format_other c h) = Some (Inr (result_value h c))"
    by (rule exec_value)
  then show "\<exists>result. observe (exec format_other c h) = Some (Inr result) \<and> is_dict result"
    using result_value_is_dict by blast
next
  show empty: "create_study_sections subject [] exam_date
       = PDict [(''study_sections'', PList []), (''total_sections'', PInt 0),
                (''current_section'', PInt 1), (''next_step'', PStr ''teach_section'')]"
    by (simp add: create_study_sections_def)
  assume "key_concepts < length h \<and> h ! key_concepts = HList []"
  then have "strings_input h (Create_study_sections subject key_concepts exam_date)"
    by simp
  then have "observe (exec format_other (Create_study_sections subject key_concepts exam_date) h)
      = Some (Inr (result_value h (Create_study_sections subject key_concepts exam_date)))"
    by (rule exec_value)
  moreover have "result_value h (Create_study_sections subject key_concepts exam_date)
      = create_study_sections subject [] exam_date"
    using \<open>key_concepts < length h \<and> h ! key_concepts = HList []\<close> by (simp add: strings_at_def)
  ultimately show "observe (exec format_other (Create_study_sections subject key_concepts exam_date) h)
          = Some (Inr (PDict [(''study_sections'', PList []), (''total_sections'', PInt 0),
                              (''current_section'', PInt 1), (''next_step'', PStr ''teach_section'')]))"
    using empty by simp
qed

text \<open>
  A call on two concepts, and a call on an empty list.
\<close>

theorem tools_do_not_raise_on_strings_witness:
  "strings_input [HList [VStr ''Cells'', VStr ''Genetics''], HList []]
     (Create_study_sections ''Biology'' 0 ''2024-06-01'')
   \<and> (\<exists>result.
        observe (exec format_unmodelled (Create_study_sections ''Biology'' 0 ''2024-06-01'')
                   [HList [VStr ''Cells'', VStr ''Genetics''], HList []]) = Some (Inr result)
        \<and> is_dict result)
   \<and> observe (exec format_unmodelled (Create_study_sections ''Biology'' 1 ''2024-06-01'')
                 [HList [VStr ''Cells'', VStr ''Genetics''], HList []])
       = Some (Inr (PDict [(''study_sections'', PList []), (''total_sections'', PInt 0),
                           (''current_section'', PInt 1), (''next_step'', PStr ''teach_section'')]))"
proof -
  let ?h = "[HList [VStr ''Cells'', VStr ''Genetics''], HList []]"
  have input: "strings_input ?h (Create_study_sections ''Biology'' 0 ''2024-06-01'')"
    using limit_ge_ten by simp
  have empty: "(1::nat) < length ?h \<and> ?h ! 1 = HList []" by simp
  note inst = tools_do_not_raise_on_strings
    [of ?h "Create_study_sections ''Biology'' 0 ''2024-06-01''" format_unmodelled 1
        "''Biology''" "''2024-06-01''"]
  from inst [THEN conjunct1, rule_format, OF input]
       inst [THEN conjunct2, THEN conjunct1, rule_format, OF empty] input
  show ?thesis by blast
qed

text \<open>
  C8 as stated fails for a list that holds something other than strings, which the
  declared type \<^verbatim>\<open>list\<close> allows:
  \<^verbatim>\<open>create_study_sections("Biology", [10 ** 4300], "2024-06-01")\<close> raises
  \<^verbatim>\<open>ValueError\<close>, because the f-string \<^verbatim>\<open>f"Master {concept}"\<close> cannot print an int of
  4301 digits.
\<close>

theorem create_study_sections_huge_int_counterexample:
  "observe (exec format_unmodelled (Create_study_sections ''Biology'' 0 ''2024-06-01'')
              [HList [VInt (10 ^ 4300)]]) = Some (Inl ValueError)"
proof -
  have e: "(10::int) ^ 4300 = 10 ^ max_str_digits"
    by (simp only: max_str_digits_def)
  show ?thesis
    by (simp only: e)
       (simp add: create_study_sections_st_def alloc_def new_section_def format_int_power10)
qed



end
